theory Spec2Isabelle
  imports Main "HOL-Library.Word"
begin

section \<open>Data model of package eeproxy\<close>

text \<open>
  The embedding follows the Go file of package \<open>eeproxy\<close> that defines \<open>proxy\<close>.
  Byte slices are lists of 8-bit words, \<open>*big.Int\<close> and \<open>common.HexInt\<close> are
  unbounded integers (always non-nil), and a \<open>module.Address\<close> is its byte string.
  A pointer that the code compares with \<open>nil\<close> is an \<open>option\<close>.
  A \<open>CallContext\<close> is an interface value owned by the host; it is identified by a
  number, and every call of one of its methods is recorded in the trace below.
\<close>

type_synonym bytes = "8 word list"
type_synonym address = bytes
type_synonym ctx = nat
type_synonym scoreType = int
type_synonym apiInfo = bytes

text \<open>An opaque \<open>codec.TypedObj\<close>: a type tag and an encoded object.\<close>

datatype typedObj = TypedObj nat bytes

text \<open>
  Go \<open>error\<close> values. The first two are built by \<open>HandleMessage\<close> itself with
  \<open>errors.Errorf\<close>; the others stand for errors returned by the codec, the connection,
  the manager and the call context.
\<close>

datatype error =
    UnknownSCOREName string
  | UnknownMessage nat
  | CodecError nat
  | ConnError nat
  | ManagerError nat
  | ContextError nat

definition msgVERSION :: nat where "msgVERSION = 0"
definition msgINVOKE :: nat where "msgINVOKE = 1"
definition msgRESULT :: nat where "msgRESULT = 2"
definition msgGETVALUE :: nat where "msgGETVALUE = 3"
definition msgSETVALUE :: nat where "msgSETVALUE = 4"
definition msgCALL :: nat where "msgCALL = 5"
definition msgEVENT :: nat where "msgEVENT = 6"
definition msgGETINFO :: nat where "msgGETINFO = 7"
definition msgGETBALANCE :: nat where "msgGETBALANCE = 8"
definition msgGETAPI :: nat where "msgGETAPI = 9"

record versionMessage =
  Version :: "16 word"
  UID :: string
  Type :: string

record invokeMessage =
  Code :: string
  IsQry :: bool
  From :: address
  To :: address
  Value :: int
  Limit :: int
  Method :: string
  Params :: "typedObj option"

record getValueMessage =
  Success :: bool
  Value :: "bytes option"

record setValueMessage =
  Key :: bytes
  IsDelete :: bool
  Value :: bytes

record callMessage =
  To :: address
  Value :: int
  Limit :: int
  Method :: string
  Params :: "typedObj option"

record eventMessage =
  Indexed :: "bytes list"
  Data :: "bytes list"

record getAPIMessage =
  Status :: "16 word"
  Info :: "apiInfo option"

record resultMessage =
  Status :: "16 word"
  StepUsed :: int
  Result :: "typedObj option"

text \<open>What is handed to \<open>conn.Send\<close> as second argument.\<close>

datatype payload =
    PInvoke invokeMessage
  | PCode string
  | PResult resultMessage
  | PGetValue getValueMessage
  | PEncoded bytes
  | PBalance int

text \<open>
  The calls the proxy makes on its collaborators, in the order it makes them: the
  connection (\<open>Send\<close>, \<open>Close\<close>), the manager (\<open>onReady\<close>, \<open>Kill\<close>) and the
  call context of a frame. \<open>MgrOnReady t r d\<close> is \<open>p.mgr.onReady(p.scoreType, p)\<close>: \<open>t\<close>
  is the first argument, and \<open>r\<close> and \<open>d\<close> are the reserved flag and the depth of the
  frame stack of the proxy \<open>p\<close> passed as second argument, at the moment of the call.
\<close>

datatype effect =
    ConnSend nat payload
  | ConnClose
  | MgrOnReady scoreType bool nat
  | MgrKill string
  | CtxGetValue ctx bytes
  | CtxSetValue ctx bytes bytes
  | CtxDeleteValue ctx bytes
  | CtxGetInfo ctx
  | CtxGetBalance ctx address
  | CtxOnEvent ctx "address option" "bytes list" "bytes list"
  | CtxOnResult ctx "16 word" int "typedObj option"
  | CtxOnCall ctx "address option" address int int string "typedObj option"
  | CtxOnAPI ctx "16 word" "apiInfo option"

text \<open>
  \<open>callFrame\<close>: the \<open>prev\<close> link is the tail of the list that holds the frame, and the
  \<open>nil\<close> frame pointer is the empty list.
\<close>

record callFrame =
  addr :: "address option"
  ctx :: ctx

text \<open>
  \<open>proxy\<close>: the fields of the Go struct that the code reads and writes, and the trace
  of the calls made on \<open>conn\<close>, \<open>mgr\<close> and the call contexts. The mutex is not a
  field: a value of this type is a proxy whose mutex is free, every function below runs
  its critical sections as one step, and the one way the code leaves a critical section
  without unlocking (a panic) is part of the outcome of \<open>HandleMessage\<close>.
\<close>

record proxy =
  reserved :: bool
  version :: "16 word"
  uid :: string
  scoreType :: scoreType
  frame :: "callFrame list"
  trace :: "effect list"

text \<open>\<open>newConnection\<close>: all fields hold Go's zero values.\<close>

definition newConnection :: proxy where
  "newConnection =
     \<lparr>reserved = False, version = 0, uid = [], scoreType = 0, frame = [], trace = []\<rparr>"

section \<open>Collaborators\<close>

text \<open>
  A call on a collaborator records itself in the trace and returns what the collaborator
  answers; the answer is an argument, so that every behaviour of the collaborator is
  covered.
\<close>

definition conn_Send :: "proxy \<Rightarrow> nat \<Rightarrow> payload \<Rightarrow> error option \<Rightarrow> error option \<times> proxy" where
  "conn_Send p msg m ret = (ret, p\<lparr>trace := trace p @ [ConnSend msg m]\<rparr>)"

definition conn_Close :: "proxy \<Rightarrow> error option \<Rightarrow> error option \<times> proxy" where
  "conn_Close p ret = (ret, p\<lparr>trace := trace p @ [ConnClose]\<rparr>)"

definition mgr_onReady :: "proxy \<Rightarrow> error option \<Rightarrow> error option \<times> proxy" where
  "mgr_onReady p ret =
     (ret, p\<lparr>trace := trace p @ [MgrOnReady (scoreType p) (reserved p) (length (frame p))]\<rparr>)"

definition mgr_Kill :: "proxy \<Rightarrow> error option \<Rightarrow> error option \<times> proxy" where
  "mgr_Kill p ret = (ret, p\<lparr>trace := trace p @ [MgrKill (uid p)]\<rparr>)"

text \<open>
  Package \<open>codec\<close> and \<open>common.EncodeAny\<close> are not part of the sources at hand: the
  decoders \<open>codec.MP.UnmarshalFromBytes\<close> (one per target type), the encoder and the
  constant \<open>codec.Nil\<close> are parameters.
\<close>

record codecMP =
  UnmarshalVersion :: "bytes \<Rightarrow> error + versionMessage"
  UnmarshalResult :: "bytes \<Rightarrow> error + resultMessage"
  UnmarshalBytes :: "bytes \<Rightarrow> error + bytes"
  UnmarshalSetValue :: "bytes \<Rightarrow> error + setValueMessage"
  UnmarshalCall :: "bytes \<Rightarrow> error + callMessage"
  UnmarshalEvent :: "bytes \<Rightarrow> error + eventMessage"
  UnmarshalAddress :: "bytes \<Rightarrow> error + address"
  UnmarshalGetAPI :: "bytes \<Rightarrow> error + getAPIMessage"
  EncodeAny :: "typedObj option \<Rightarrow> error + bytes"
  codecNil :: typedObj

section \<open>Operations called by the host and the manager\<close>

definition Invoke ::
  "proxy \<Rightarrow> ctx \<Rightarrow> string \<Rightarrow> bool \<Rightarrow> address \<Rightarrow> address \<Rightarrow> int \<Rightarrow> int \<Rightarrow> string \<Rightarrow>
   typedObj option \<Rightarrow> error option \<Rightarrow> error option \<times> proxy" where
  "Invoke p c code isQuery from' to' value' limit method params sendRet =
     (let m = \<lparr>Code = code, IsQry = isQuery, From = from', invokeMessage.To = to',
                invokeMessage.Value = value', invokeMessage.Limit = limit,
                invokeMessage.Method = method, invokeMessage.Params = params\<rparr>;
          p1 = p\<lparr>frame := \<lparr>addr = Some to', ctx = c\<rparr> # frame p\<rparr>
      in conn_Send p1 msgINVOKE (PInvoke m) sendRet)"

definition GetAPI :: "proxy \<Rightarrow> ctx \<Rightarrow> string \<Rightarrow> error option \<Rightarrow> error option \<times> proxy" where
  "GetAPI p c code sendRet =
     (let p1 = p\<lparr>frame := \<lparr>addr = None, ctx = c\<rparr> # frame p\<rparr>
      in conn_Send p1 msgGETAPI (PCode code) sendRet)"

definition reserve :: "proxy \<Rightarrow> bool \<times> proxy" where
  "reserve p = (if reserved p then (False, p) else (True, p\<lparr>reserved := True\<rparr>))"

text \<open>
  \<open>Release\<close>: \<open>readyRet\<close> is what \<open>mgr.onReady\<close> returns if it is called; the result
  of \<open>conn.Close\<close> is dropped by the code.
\<close>

definition Release :: "proxy \<Rightarrow> error option \<Rightarrow> proxy" where
  "Release p readyRet =
     (if \<not> reserved p then p
      else
        let p1 = p\<lparr>reserved := False\<rparr> in
        if frame p1 = [] then
          (case mgr_onReady p1 readyRet of
             (Some err, p2) \<Rightarrow> snd (conn_Close p2 None)
           | (None, p2) \<Rightarrow> p2)
        else p1)"

definition SendResult ::
  "typedObj \<Rightarrow> proxy \<Rightarrow> ctx \<Rightarrow> 16 word \<Rightarrow> int \<Rightarrow> typedObj option \<Rightarrow> error option \<Rightarrow>
   error option \<times> proxy" where
  "SendResult nil p c status steps result sendRet =
     (let result1 = (if result = None then Some nil else result);
          m = \<lparr>resultMessage.Status = status, StepUsed = steps, Result = result1\<rparr>
      in conn_Send p msgRESULT (PResult m) sendRet)"

definition Close :: "proxy \<Rightarrow> error option \<Rightarrow> error option \<times> proxy" where
  "Close p ret = conn_Close p ret"

definition Kill :: "proxy \<Rightarrow> error option \<Rightarrow> error option \<times> proxy" where
  "Kill p ret = mgr_Kill p ret"

text \<open>
  A call made on the proxy by the host or the manager, with the answer of the
  collaborator that the call reaches (last argument).
\<close>

datatype hostcall =
    CallInvoke ctx string bool address address int int string "typedObj option" "error option"
  | CallGetAPI ctx string "error option"
  | CallSendResult ctx "16 word" int "typedObj option" "error option"
  | CallReserve
  | CallRelease "error option"
  | CallKill "error option"
  | CallClose "error option"

fun perform :: "typedObj \<Rightarrow> proxy \<Rightarrow> hostcall \<Rightarrow> proxy" where
  "perform nil p (CallInvoke c code q f t v l m ps r) = snd (Invoke p c code q f t v l m ps r)"
| "perform nil p (CallGetAPI c code r) = snd (GetAPI p c code r)"
| "perform nil p (CallSendResult c st steps res r) = snd (SendResult nil p c st steps res r)"
| "perform nil p CallReserve = snd (reserve p)"
| "perform nil p (CallRelease r) = Release p r"
| "perform nil p (CallKill r) = snd (Kill p r)"
| "perform nil p (CallClose r) = snd (Close p r)"

fun hostcalls :: "typedObj \<Rightarrow> proxy \<Rightarrow> hostcall list \<Rightarrow> proxy" where
  "hostcalls nil p [] = p"
| "hostcalls nil p (h # hs) = hostcalls nil (perform nil p h) hs"

section \<open>Inbound dispatch\<close>

text \<open>
  What the collaborators answer during one dispatch; each is called at most once per
  message. \<open>during\<close> lists the calls that reach the proxy while the call context's
  method runs (the lock is not held then): the host re-entering from the callback, or
  another thread.
\<close>

record responses =
  onReady_ret :: "error option"
  Send_ret :: "error option"
  during :: "hostcall list"
  GetValue_ret :: "bytes option \<times> error option"
  SetValue_ret :: "error option"
  DeleteValue_ret :: "error option"
  GetInfo_ret :: "typedObj option"
  GetBalance_ret :: int

text \<open>
  The state of \<open>p.lock\<close> at the moment of a panic. The \<open>msgRESULT\<close> and \<open>msgGETAPI\<close>
  cases of \<open>HandleMessage\<close> lock the mutex without a deferred unlock, so a panic between
  \<open>Lock\<close> and \<open>Unlock\<close> leaves it locked: every later call that takes the lock
  (\<open>Invoke\<close>, \<open>GetAPI\<close>, \<open>reserve\<close>, \<open>Release\<close>, \<open>Kill\<close>, and these two cases) blocks.
\<close>

datatype mutex = Unlocked | Locked

text \<open>
  \<open>HandleMessage\<close> either returns an \<open>error\<close> (\<open>nil\<close> is \<open>None\<close>) or panics on a
  nil pointer dereference; \<open>Panicked l\<close> tells in which state the panic leaves the mutex.
\<close>

datatype outcome = Returned "error option" | Panicked mutex

definition callback :: "typedObj \<Rightarrow> proxy \<Rightarrow> effect \<Rightarrow> hostcall list \<Rightarrow> proxy" where
  "callback nil p e calls = hostcalls nil (p\<lparr>trace := trace p @ [e]\<rparr>) calls"

text \<open>The readiness check that ends the \<open>msgRESULT\<close> and \<open>msgGETAPI\<close> cases.\<close>

definition readiness :: "proxy \<Rightarrow> error option \<Rightarrow> outcome \<times> proxy" where
  "readiness p readyRet =
     (if frame p = [] \<and> \<not> reserved p then
        (case mgr_onReady p readyRet of (ret, p1) \<Rightarrow> (Returned ret, p1))
      else (Returned None, p))"

definition caseVERSION ::
  "codecMP \<Rightarrow> (string \<rightharpoonup> scoreType) \<Rightarrow> proxy \<Rightarrow> bytes \<Rightarrow> responses \<Rightarrow> outcome \<times> proxy" where
  "caseVERSION MP scoreNameToType p data r =
     (case UnmarshalVersion MP data of
        Inl err \<Rightarrow> (Returned (Some err), p)
      | Inr m \<Rightarrow>
          let p1 = p\<lparr>version := Version m, uid := UID m\<rparr> in
          (case scoreNameToType (Type m) of
             None \<Rightarrow> (Returned (Some (UnknownSCOREName (Type m))), p1)
           | Some t \<Rightarrow>
               (case mgr_onReady (p1\<lparr>scoreType := t\<rparr>) (onReady_ret r) of
                  (ret, p2) \<Rightarrow> (Returned ret, p2))))"

text \<open>
  \<open>msgRESULT\<close>: with no frame, \<open>frame.prev\<close> panics while \<open>p.lock\<close> is held; no field
  of the proxy has been written, and the mutex stays locked.
\<close>

definition caseRESULT :: "codecMP \<Rightarrow> proxy \<Rightarrow> bytes \<Rightarrow> responses \<Rightarrow> outcome \<times> proxy" where
  "caseRESULT MP p data r =
     (case UnmarshalResult MP data of
        Inl err \<Rightarrow> (Returned (Some err), p)
      | Inr m \<Rightarrow>
          (case frame p of
             [] \<Rightarrow> (Panicked Locked, p)
           | fr # prev \<Rightarrow>
               let p1 = p\<lparr>frame := prev\<rparr>;
                   p2 = callback (codecNil MP) p1
                          (CtxOnResult (ctx fr) (resultMessage.Status m) (StepUsed m) (Result m))
                          (during r)
               in readiness p2 (onReady_ret r)))"

text \<open>
  The intermediate messages read \<open>p.frame\<close> without taking the lock: with no frame they
  panic on \<open>p.frame.ctx\<close>, and the mutex is free.
\<close>

definition caseGETVALUE :: "codecMP \<Rightarrow> proxy \<Rightarrow> bytes \<Rightarrow> responses \<Rightarrow> outcome \<times> proxy" where
  "caseGETVALUE MP p data r =
     (case UnmarshalBytes MP data of
        Inl err \<Rightarrow> (Returned (Some err), p)
      | Inr key \<Rightarrow>
          (case frame p of
             [] \<Rightarrow> (Panicked Unlocked, p)
           | fr # prev \<Rightarrow>
               let p1 = callback (codecNil MP) p (CtxGetValue (ctx fr) key) (during r) in
               (case GetValue_ret r of
                  (value', Some err) \<Rightarrow> (Returned (Some err), p1)
                | (value', None) \<Rightarrow>
                    let m = (case value' of
                               Some v \<Rightarrow> \<lparr>Success = True, getValueMessage.Value = Some v\<rparr>
                             | None \<Rightarrow> \<lparr>Success = False, getValueMessage.Value = None\<rparr>)
                    in (case conn_Send p1 msgGETVALUE (PGetValue m) (Send_ret r) of
                          (ret, p2) \<Rightarrow> (Returned ret, p2)))))"

definition caseSETVALUE :: "codecMP \<Rightarrow> proxy \<Rightarrow> bytes \<Rightarrow> responses \<Rightarrow> outcome \<times> proxy" where
  "caseSETVALUE MP p data r =
     (case UnmarshalSetValue MP data of
        Inl err \<Rightarrow> (Returned (Some err), p)
      | Inr m \<Rightarrow>
          (case frame p of
             [] \<Rightarrow> (Panicked Unlocked, p)
           | fr # prev \<Rightarrow>
               if IsDelete m then
                 (Returned (DeleteValue_ret r),
                  callback (codecNil MP) p (CtxDeleteValue (ctx fr) (Key m)) (during r))
               else
                 (Returned (SetValue_ret r),
                  callback (codecNil MP) p
                    (CtxSetValue (ctx fr) (Key m) (setValueMessage.Value m)) (during r))))"

definition caseCALL :: "codecMP \<Rightarrow> proxy \<Rightarrow> bytes \<Rightarrow> responses \<Rightarrow> outcome \<times> proxy" where
  "caseCALL MP p data r =
     (case UnmarshalCall MP data of
        Inl err \<Rightarrow> (Returned (Some err), p)
      | Inr m \<Rightarrow>
          (case frame p of
             [] \<Rightarrow> (Panicked Unlocked, p)
           | fr # prev \<Rightarrow>
               (Returned None,
                callback (codecNil MP) p
                  (CtxOnCall (ctx fr) (addr fr) (callMessage.To m) (callMessage.Value m)
                     (callMessage.Limit m) (callMessage.Method m) (callMessage.Params m))
                  (during r))))"

definition caseEVENT :: "codecMP \<Rightarrow> proxy \<Rightarrow> bytes \<Rightarrow> responses \<Rightarrow> outcome \<times> proxy" where
  "caseEVENT MP p data r =
     (case UnmarshalEvent MP data of
        Inl err \<Rightarrow> (Returned (Some err), p)
      | Inr m \<Rightarrow>
          (case frame p of
             [] \<Rightarrow> (Panicked Unlocked, p)
           | fr # prev \<Rightarrow>
               (Returned None,
                callback (codecNil MP) p
                  (CtxOnEvent (ctx fr) (addr fr) (Indexed m) (Data m)) (during r))))"

definition caseGETINFO :: "codecMP \<Rightarrow> proxy \<Rightarrow> bytes \<Rightarrow> responses \<Rightarrow> outcome \<times> proxy" where
  "caseGETINFO MP p data r =
     (case frame p of
        [] \<Rightarrow> (Panicked Unlocked, p)
      | fr # prev \<Rightarrow>
          let p1 = callback (codecNil MP) p (CtxGetInfo (ctx fr)) (during r) in
          (case EncodeAny MP (GetInfo_ret r) of
             Inl err \<Rightarrow> (Returned (Some err), p1)
           | Inr eo \<Rightarrow>
               (case conn_Send p1 msgGETINFO (PEncoded eo) (Send_ret r) of
                  (ret, p2) \<Rightarrow> (Returned ret, p2))))"

definition caseGETBALANCE :: "codecMP \<Rightarrow> proxy \<Rightarrow> bytes \<Rightarrow> responses \<Rightarrow> outcome \<times> proxy" where
  "caseGETBALANCE MP p data r =
     (case UnmarshalAddress MP data of
        Inl err \<Rightarrow> (Returned (Some err), p)
      | Inr a \<Rightarrow>
          (case frame p of
             [] \<Rightarrow> (Panicked Unlocked, p)
           | fr # prev \<Rightarrow>
               let p1 = callback (codecNil MP) p (CtxGetBalance (ctx fr) a) (during r) in
               (case conn_Send p1 msgGETBALANCE (PBalance (GetBalance_ret r)) (Send_ret r) of
                  (ret, p2) \<Rightarrow> (Returned ret, p2))))"

text \<open>\<open>msgGETAPI\<close>: the same pop as \<open>msgRESULT\<close>, with the same panic under the lock.\<close>

definition caseGETAPI :: "codecMP \<Rightarrow> proxy \<Rightarrow> bytes \<Rightarrow> responses \<Rightarrow> outcome \<times> proxy" where
  "caseGETAPI MP p data r =
     (case UnmarshalGetAPI MP data of
        Inl err \<Rightarrow> (Returned (Some err), p)
      | Inr m \<Rightarrow>
          (case frame p of
             [] \<Rightarrow> (Panicked Locked, p)
           | fr # prev \<Rightarrow>
               let p1 = p\<lparr>frame := prev\<rparr>;
                   p2 = callback (codecNil MP) p1
                          (CtxOnAPI (ctx fr) (getAPIMessage.Status m) (Info m)) (during r)
               in readiness p2 (onReady_ret r)))"

text \<open>
  The \<open>switch\<close> of \<open>HandleMessage\<close>. There is no case for \<open>msgINVOKE\<close>: it falls to
  \<open>default\<close> with every other number.
\<close>

definition HandleMessage ::
  "codecMP \<Rightarrow> (string \<rightharpoonup> scoreType) \<Rightarrow> proxy \<Rightarrow> nat \<Rightarrow> bytes \<Rightarrow> responses \<Rightarrow> outcome \<times> proxy" where
  "HandleMessage MP scoreNameToType p msg data r =
     (if msg = msgVERSION then caseVERSION MP scoreNameToType p data r
      else if msg = msgRESULT then caseRESULT MP p data r
      else if msg = msgGETVALUE then caseGETVALUE MP p data r
      else if msg = msgSETVALUE then caseSETVALUE MP p data r
      else if msg = msgCALL then caseCALL MP p data r
      else if msg = msgEVENT then caseEVENT MP p data r
      else if msg = msgGETINFO then caseGETINFO MP p data r
      else if msg = msgGETBALANCE then caseGETBALANCE MP p data r
      else if msg = msgGETAPI then caseGETAPI MP p data r
      else (Returned (Some (UnknownMessage msg)), p))"

section \<open>Runs of a proxy\<close>

text \<open>
  One thing that happens to a proxy: the transport delivers a message to
  \<open>HandleMessage\<close>, or the host or the manager calls one of the other methods.
\<close>

datatype op = Inbound nat bytes responses | Host hostcall

text \<open>
  \<open>step\<close> is the proxy after one operation, whatever it returned; after a panic it holds
  the fields of the proxy as the panic left them (the state of the mutex is in the
  outcome of \<open>HandleMessage\<close>, not here). \<open>steps\<close> runs a sequence.
\<close>

fun step :: "codecMP \<Rightarrow> (string \<rightharpoonup> scoreType) \<Rightarrow> proxy \<Rightarrow> op \<Rightarrow> proxy" where
  "step MP names p (Inbound msg data r) = snd (HandleMessage MP names p msg data r)"
| "step MP names p (Host h) = perform (codecNil MP) p h"

fun steps :: "codecMP \<Rightarrow> (string \<rightharpoonup> scoreType) \<Rightarrow> proxy \<Rightarrow> op list \<Rightarrow> proxy" where
  "steps MP names p [] = p"
| "steps MP names p (x # xs) = steps MP names (step MP names p x) xs"


text \<open>
  The sequences in which no dispatch panics: on them the mutex is free between any two
  operations, so that every call that takes the lock gets it.
\<close>

fun panicFree :: "codecMP \<Rightarrow> (string \<rightharpoonup> scoreType) \<Rightarrow> proxy \<Rightarrow> op list \<Rightarrow> bool" where
  "panicFree MP names p [] = True"
| "panicFree MP names p (Host h # xs) = panicFree MP names (perform (codecNil MP) p h) xs"
| "panicFree MP names p (Inbound msg data r # xs) =
     (case HandleMessage MP names p msg data r of
        (Returned e, p1) \<Rightarrow> panicFree MP names p1 xs
      | (Panicked l, p1) \<Rightarrow> False)"


fun isRelease :: "hostcall \<Rightarrow> bool" where
  "isRelease (CallRelease r) = True"
| "isRelease h = False"


fun pops :: "op list \<Rightarrow> nat" where
  "pops [] = 0"
| "pops (Host h # xs) = pops xs"
| "pops (Inbound msg data r # xs) =
     (if msg = msgRESULT \<or> msg = msgGETAPI then 1 else 0) + pops xs"

text \<open>The operations that are not a call of \<open>Release\<close> and have none in a callback.\<close>

fun noRelease :: "op \<Rightarrow> bool" where
  "noRelease (Host h) = (\<not> isRelease h)"
| "noRelease (Inbound msg data r) = (\<not> list_ex isRelease (during r))"

fun isVERSION :: "op \<Rightarrow> bool" where
  "isVERSION (Inbound msg data r) = (msg = msgVERSION)"
| "isVERSION (Host h) = False"

text \<open>What an operation adds to the trace.\<close>

definition fresh :: "proxy \<Rightarrow> proxy \<Rightarrow> effect list" where
  "fresh p p1 = drop (length (trace p)) (trace p1)"

text \<open>A call of \<open>onReady\<close> made on a proxy that is not reserved and has no frame.\<close>

fun idleReady :: "effect \<Rightarrow> bool" where
  "idleReady (MgrOnReady t r d) = (\<not> r \<and> d = 0)"
| "idleReady e = True"

fun isOnReady :: "effect \<Rightarrow> bool" where
  "isOnReady (MgrOnReady t r d) = True"
| "isOnReady e = False"

text \<open>The identity of the engine, as the \<open>VERSION\<close> message gave it.\<close>

definition identity :: "proxy \<Rightarrow> 16 word \<times> string \<times> scoreType" where
  "identity p = (version p, uid p, scoreType p)"

text \<open>
  The error of the decoder that \<open>HandleMessage\<close> applies to the payload of a message,
  if it fails (\<open>msgGETINFO\<close> has no payload to decode).
\<close>

definition decodeError :: "codecMP \<Rightarrow> nat \<Rightarrow> bytes \<Rightarrow> error option" where
  "decodeError MP msg data =
     (if msg = msgRESULT then (case UnmarshalResult MP data of Inl e \<Rightarrow> Some e | Inr m \<Rightarrow> None)
      else if msg = msgGETVALUE then (case UnmarshalBytes MP data of Inl e \<Rightarrow> Some e | Inr m \<Rightarrow> None)
      else if msg = msgSETVALUE then (case UnmarshalSetValue MP data of Inl e \<Rightarrow> Some e | Inr m \<Rightarrow> None)
      else if msg = msgCALL then (case UnmarshalCall MP data of Inl e \<Rightarrow> Some e | Inr m \<Rightarrow> None)
      else if msg = msgEVENT then (case UnmarshalEvent MP data of Inl e \<Rightarrow> Some e | Inr m \<Rightarrow> None)
      else if msg = msgGETBALANCE then (case UnmarshalAddress MP data of Inl e \<Rightarrow> Some e | Inr m \<Rightarrow> None)
      else if msg = msgGETAPI then (case UnmarshalGetAPI MP data of Inl e \<Rightarrow> Some e | Inr m \<Rightarrow> None)
      else None)"

section \<open>A codec and answers for the scenarios\<close>

text \<open>
  A small codec on which the scenarios are run: a \<open>VERSION\<close> payload is three bytes
  (version, uid, type), a \<open>RESULT\<close> payload two (status, steps), and an empty payload
  does not decode.
\<close>

definition testMP :: codecMP where
  "testMP =
     \<lparr>UnmarshalVersion = (\<lambda>d. case d of
          [v, u, t] \<Rightarrow> Inr \<lparr>Version = ucast v, UID = (if u = 0 then ''u'' else ''w''),
                            Type = (if t = 0 then ''python''
                                    else if t = 1 then ''java'' else ''martian'')\<rparr>
        | _ \<Rightarrow> Inl (CodecError 0)),
      UnmarshalResult = (\<lambda>d. case d of
          [s, n] \<Rightarrow> Inr \<lparr>resultMessage.Status = ucast s, StepUsed = uint n, Result = None\<rparr>
        | _ \<Rightarrow> Inl (CodecError 2)),
      UnmarshalBytes = (\<lambda>d. if d = [] then Inl (CodecError 3) else Inr d),
      UnmarshalSetValue = (\<lambda>d. case d of
          [] \<Rightarrow> Inl (CodecError 4)
        | k # v \<Rightarrow> Inr \<lparr>Key = [k], IsDelete = (v = []), setValueMessage.Value = v\<rparr>),
      UnmarshalCall = (\<lambda>d. if d = [] then Inl (CodecError 5)
        else Inr \<lparr>callMessage.To = d, callMessage.Value = 0, callMessage.Limit = 100,
                  callMessage.Method = ''m'', callMessage.Params = None\<rparr>),
      UnmarshalEvent = (\<lambda>d. if d = [] then Inl (CodecError 6)
        else Inr \<lparr>Indexed = [d], Data = []\<rparr>),
      UnmarshalAddress = (\<lambda>d. if d = [] then Inl (CodecError 8) else Inr d),
      UnmarshalGetAPI = (\<lambda>d. case d of
          [] \<Rightarrow> Inl (CodecError 9)
        | s # i \<Rightarrow> Inr \<lparr>getAPIMessage.Status = ucast s, Info = Some i\<rparr>),
      EncodeAny = (\<lambda>v. case v of None \<Rightarrow> Inr [] | Some (TypedObj t b) \<Rightarrow> Inr b),
      codecNil = TypedObj 0 []\<rparr>"

definition testNames :: "string \<rightharpoonup> scoreType" where
  "testNames = [''python'' \<mapsto> 0, ''java'' \<mapsto> 1]"

text \<open>Collaborators that never fail, and a host that makes no call from a callback.\<close>

definition quiet :: responses where
  "quiet =
     \<lparr>onReady_ret = None, Send_ret = None, during = [], GetValue_ret = (None, None),
      SetValue_ret = None, DeleteValue_ret = None, GetInfo_ret = None, GetBalance_ret = 0\<rparr>"

text \<open>\<open>invoke(ctx, "c", false, A, B, 0, 100, "m", nil)\<close> of the scenarios, sent without error.\<close>

definition invokeB :: "ctx \<Rightarrow> hostcall" where
  "invokeB c = CallInvoke c ''c'' False [10] [11] 0 100 ''m'' None None"

text \<open>
  The nested sub-call: \<open>VERSION\<close>, a reservation, an \<open>Invoke\<close>, a \<open>CALL\<close> that the
  host answers from \<open>OnCall\<close> by a nested \<open>Invoke\<close>, then the inner and the outer
  \<open>RESULT\<close>.
\<close>

definition nestedCall :: "op list" where
  "nestedCall =
     [Inbound msgVERSION [1, 0, 0] quiet,
      Host CallReserve,
      Host (invokeB 1),
      Inbound msgCALL [12] (quiet\<lparr>during := [invokeB 2]\<rparr>),
      Inbound msgRESULT [0, 5] quiet,
      Inbound msgRESULT [0, 50] quiet]"

text \<open>The handshake and a reservation; a manager whose \<open>onReady\<close> fails.\<close>

definition handshake :: "op list" where
  "handshake = [Inbound msgVERSION [1, 0, 0] quiet, Host CallReserve]"

definition failing :: responses where
  "failing = quiet\<lparr>onReady_ret := Some (ManagerError 1)\<rparr>"

text \<open>The host calls \<open>Release\<close> from \<open>OnResult\<close>, before the callback returns.\<close>

definition releasing :: responses where
  "releasing = quiet\<lparr>during := [CallRelease None]\<rparr>"

section \<open>Basic facts\<close>

lemmas msg_defs =
  msgVERSION_def msgINVOKE_def msgRESULT_def msgGETVALUE_def msgSETVALUE_def
  msgCALL_def msgEVENT_def msgGETINFO_def msgGETBALANCE_def msgGETAPI_def

lemmas call_defs =
  Invoke_def GetAPI_def SendResult_def reserve_def Release_def Kill_def Close_def
  conn_Send_def conn_Close_def mgr_onReady_def mgr_Kill_def

lemmas case_defs =
  caseVERSION_def caseRESULT_def caseGETVALUE_def caseSETVALUE_def caseCALL_def
  caseEVENT_def caseGETINFO_def caseGETBALANCE_def caseGETAPI_def

lemmas eval_defs =
  HandleMessage_def case_defs call_defs callback_def readiness_def msg_defs
  testMP_def testNames_def quiet_def invokeB_def newConnection_def Let_def
  handshake_def failing_def releasing_def





section \<open>Frame stack depth\<close>














section \<open>Sends\<close>

text \<open>
  Claim C10. When the send made by \<open>Invoke\<close> or by \<open>GetAPI\<close> returns an error, the
  call returns that error and the frame it pushed stays on the stack: the proxy after the
  call is the proxy before it with one more frame (and the send recorded in the trace);
  no other field changes.
\<close>

theorem failed_send_keeps_frame:
  "Invoke p c code q f t v l m ps (Some e) =
     (Some e,
      p\<lparr>frame := \<lparr>addr = Some t, ctx = c\<rparr> # frame p,
        trace := trace p @
          [ConnSend msgINVOKE
             (PInvoke \<lparr>Code = code, IsQry = q, From = f, invokeMessage.To = t,
                       invokeMessage.Value = v, invokeMessage.Limit = l,
                       invokeMessage.Method = m, invokeMessage.Params = ps\<rparr>)]\<rparr>) \<and>
   GetAPI p c code (Some e) =
     (Some e,
      p\<lparr>frame := \<lparr>addr = None, ctx = c\<rparr> # frame p,
        trace := trace p @ [ConnSend msgGETAPI (PCode code)]\<rparr>)"
  by (simp add: Invoke_def GetAPI_def conn_Send_def)

text \<open>
  Claim C8. When \<open>SendResult\<close> is called with a nil result, the \<open>RESULT\<close> message it
  hands to the connection carries \<open>codec.Nil\<close> in its result field, and the status and
  the steps of the call unchanged.
\<close>

theorem SendResult_nil_sentinel:
  "SendResult nil p c status used None ret =
     (ret,
      p\<lparr>trace := trace p @
          [ConnSend msgRESULT
             (PResult \<lparr>resultMessage.Status = status, StepUsed = used,
                       Result = Some nil\<rparr>)]\<rparr>)"
  by (simp add: SendResult_def conn_Send_def)

section \<open>The \<open>VERSION\<close> message\<close>

text \<open>
  Claim C7. When the type string of a \<open>VERSION\<close> message is not a key of
  \<open>scoreNameToType\<close>, \<open>HandleMessage\<close> returns the error built from that string
  (\<open>UnknownSCOREName\<close> in the code) and \<open>onReady\<close> is not called: the trace is
  unchanged.
\<close>

theorem unknown_engine_kind:
  assumes "UnmarshalVersion MP data = Inr m" and "names (Type m) = None"
  shows "fst (HandleMessage MP names p msgVERSION data r) =
           Returned (Some (UnknownSCOREName (Type m))) \<and>
         trace (snd (HandleMessage MP names p msgVERSION data r)) = trace p"
  using assms by (simp add: HandleMessage_def caseVERSION_def)

theorem unknown_engine_kind_witness:
  "UnmarshalVersion testMP [1, 0, 2] =
     Inr \<lparr>Version = 1, UID = ''u'', Type = ''martian''\<rparr> \<and>
   testNames ''martian'' = None \<and>
   fst (HandleMessage testMP testNames newConnection msgVERSION [1, 0, 2] quiet) =
     Returned (Some (UnknownSCOREName ''martian'')) \<and>
   trace (snd (HandleMessage testMP testNames newConnection msgVERSION [1, 0, 2] quiet)) = []"
proof -
  have d: "UnmarshalVersion testMP [1, 0, 2] =
     Inr \<lparr>Version = 1, UID = ''u'', Type = ''martian''\<rparr>"
    by (simp add: testMP_def)
  have n: "testNames (Type \<lparr>Version = 1, UID = ''u'', Type = ''martian''\<rparr>) = None"
    by (simp add: testNames_def)
  from unknown_engine_kind[where MP = testMP and names = testNames and p = newConnection
      and r = quiet, OF d n] d n
  show ?thesis
    by (simp add: newConnection_def)
qed

section \<open>Release\<close>

text \<open>
  Claim C6, as stated, fails on a proxy that is not reserved: \<open>Release\<close> returns at once,
  and the manager is not notified although the frame stack is empty.
\<close>

theorem Release_unreserved_counterexample:
  "frame newConnection = [] \<and> fresh newConnection (Release newConnection None) = []"
  by (simp add: Release_def newConnection_def fresh_def)

text \<open>
  Claim C6, amended. After \<open>Release\<close> the proxy is not reserved and its frame stack is
  unchanged. \<open>Release\<close> calls \<open>onReady\<close> (once, on a proxy that is no longer reserved)
  exactly when the proxy was reserved and its frame stack is empty; when the proxy was
  not reserved, or a frame is left, it notifies nobody.
\<close>

theorem Release_notifies_when_reserved_and_idle:
  "reserved (Release p ret) = False \<and>
   frame (Release p ret) = frame p \<and>
   fresh p (Release p ret) =
     (if reserved p \<and> frame p = []
      then MgrOnReady (scoreType p) False 0 # (case ret of None \<Rightarrow> [] | Some e \<Rightarrow> [ConnClose])
      else [])"
  by (simp add: Release_def mgr_onReady_def conn_Close_def fresh_def Let_def split: option.split)

section \<open>Messages on an empty frame stack\<close>

text \<open>
  Claim C4, as stated, fails: a \<open>GETVALUE\<close> or a \<open>RESULT\<close> message that arrives on a
  proxy with no frame makes \<open>HandleMessage\<close> dereference the nil frame pointer. It
  panics, \<open>RESULT\<close> with the mutex of the proxy locked; no error is returned.
\<close>

theorem empty_stack_counterexample:
  "frame newConnection = [] \<and>
   HandleMessage testMP testNames newConnection msgGETVALUE [1] quiet =
     (Panicked Unlocked, newConnection) \<and>
   HandleMessage testMP testNames newConnection msgRESULT [0, 42] quiet =
     (Panicked Locked, newConnection)"
  by (simp add: HandleMessage_def caseGETVALUE_def caseRESULT_def msg_defs testMP_def
      newConnection_def)

text \<open>
  Claim C4, amended. When an intermediate message (\<open>GETVALUE\<close>, \<open>SETVALUE\<close>, \<open>CALL\<close>,
  \<open>EVENT\<close>, \<open>GETINFO\<close>, \<open>GETBALANCE\<close>) or a terminal message (\<open>RESULT\<close>, \<open>GETAPI\<close>)
  arrives while the frame stack is empty, \<open>HandleMessage\<close> calls no collaborator and
  writes no field of the proxy. It returns the decoder's error if the payload does not
  decode, and otherwise panics on the nil frame: an intermediate message with the
  mutex of the proxy free, a terminal message with the mutex locked, and it stays
  locked. There is no protocol error.
\<close>

theorem empty_stack_panics:
  assumes "frame p = []"
    and "msg \<in> {msgRESULT, msgGETVALUE, msgSETVALUE, msgCALL, msgEVENT, msgGETINFO,
                 msgGETBALANCE, msgGETAPI}"
  shows "HandleMessage MP names p msg data r =
           ((case decodeError MP msg data of
               Some err \<Rightarrow> Returned (Some err)
             | None \<Rightarrow>
                 Panicked (if msg = msgRESULT \<or> msg = msgGETAPI then Locked else Unlocked)),
            p)"
  using assms
  by (auto simp: HandleMessage_def case_defs decodeError_def msg_defs split: sum.splits)

theorem empty_stack_panics_witness:
  "frame newConnection = [] \<and>
   msgRESULT \<in> {msgRESULT, msgGETVALUE, msgSETVALUE, msgCALL, msgEVENT, msgGETINFO,
                 msgGETBALANCE, msgGETAPI} \<and>
   msgCALL \<in> {msgRESULT, msgGETVALUE, msgSETVALUE, msgCALL, msgEVENT, msgGETINFO,
                 msgGETBALANCE, msgGETAPI} \<and>
   HandleMessage testMP testNames newConnection msgRESULT [0, 42] quiet =
     (Panicked Locked, newConnection) \<and>
   HandleMessage testMP testNames newConnection msgRESULT [] quiet =
     (Returned (Some (CodecError 2)), newConnection) \<and>
   HandleMessage testMP testNames newConnection msgCALL [12] quiet =
     (Panicked Unlocked, newConnection)"
proof -
  have f: "frame newConnection = []" by (simp add: newConnection_def)
  have m: "msgRESULT \<in> {msgRESULT, msgGETVALUE, msgSETVALUE, msgCALL, msgEVENT, msgGETINFO,
                 msgGETBALANCE, msgGETAPI}" by simp
  have c: "msgCALL \<in> {msgRESULT, msgGETVALUE, msgSETVALUE, msgCALL, msgEVENT, msgGETINFO,
                 msgGETBALANCE, msgGETAPI}" by simp
  have d1: "decodeError testMP msgRESULT [0, 42] = None"
    by (simp add: decodeError_def testMP_def)
  have d2: "decodeError testMP msgRESULT [] = Some (CodecError 2)"
    by (simp add: decodeError_def testMP_def)
  have d3: "decodeError testMP msgCALL [12] = None"
    by (simp add: decodeError_def testMP_def msg_defs)
  have n: "msgCALL \<noteq> msgRESULT \<and> msgCALL \<noteq> msgGETAPI" by (simp add: msg_defs)
  from empty_stack_panics[OF f m, of testMP testNames "[0, 42]" quiet]
       empty_stack_panics[OF f m, of testMP testNames "[]" quiet]
       empty_stack_panics[OF f c, of testMP testNames "[12]" quiet] f m c d1 d2 d3 n
  show ?thesis by simp
qed

section \<open>Identity of the engine\<close>

lemma HandleMessage_preserves:
  assumes msg: "msg \<noteq> msgVERSION"
    and base: "P p"
    and fr: "\<And>q fs. P q \<Longrightarrow> P (q\<lparr>frame := fs\<rparr>)"
    and tr: "\<And>q e. P q \<Longrightarrow> \<not> isOnReady e \<Longrightarrow> P (q\<lparr>trace := trace q @ [e]\<rparr>)"
    and rdy: "\<And>q. P q \<Longrightarrow> frame q = [] \<Longrightarrow> \<not> reserved q \<Longrightarrow>
                P (q\<lparr>trace := trace q @ [MgrOnReady (scoreType q) False 0]\<rparr>)"
    and calls: "\<And>q. P q \<Longrightarrow> P (hostcalls (codecNil MP) q (during r))"
  shows "P (snd (HandleMessage MP names p msg data r))"
proof -
  have cb: "P (callback (codecNil MP) q e (during r))" if "P q" "\<not> isOnReady e" for q e
    unfolding callback_def using that by (intro calls tr)
  have rd: "P (snd (readiness q ret))" if "P q" for q ret
    using that rdy[of q] by (simp add: readiness_def mgr_onReady_def)
  have sd: "P (q\<lparr>trace := trace q @ [ConnSend m pl]\<rparr>)" if "P q" for q m pl
    using that by (simp add: tr)
  consider "msg = msgRESULT" | "msg = msgGETVALUE" | "msg = msgSETVALUE"
    | "msg = msgCALL" | "msg = msgEVENT" | "msg = msgGETINFO" | "msg = msgGETBALANCE"
    | "msg = msgGETAPI" | "msg = msgINVOKE \<or> msg > 9"
    using msg unfolding msg_defs by atomize_elim arith
  then show ?thesis
  proof cases
    case 1
    have "P (snd (caseRESULT MP p data r))"
      by (simp add: caseRESULT_def Let_def base rd cb fr split: sum.split list.split)
    with 1 show ?thesis by (simp add: HandleMessage_def msg_defs)
  next
    case 2
    have "P (snd (caseGETVALUE MP p data r))"
      by (simp add: caseGETVALUE_def Let_def base conn_Send_def sd cb
          split: sum.split list.split prod.split option.split)
    with 2 show ?thesis by (simp add: HandleMessage_def msg_defs)
  next
    case 3
    have "P (snd (caseSETVALUE MP p data r))"
      by (simp add: caseSETVALUE_def Let_def base cb split: sum.split list.split)
    with 3 show ?thesis by (simp add: HandleMessage_def msg_defs)
  next
    case 4
    have "P (snd (caseCALL MP p data r))"
      by (simp add: caseCALL_def Let_def base cb split: sum.split list.split)
    with 4 show ?thesis by (simp add: HandleMessage_def msg_defs)
  next
    case 5
    have "P (snd (caseEVENT MP p data r))"
      by (simp add: caseEVENT_def Let_def base cb split: sum.split list.split)
    with 5 show ?thesis by (simp add: HandleMessage_def msg_defs)
  next
    case 6
    have "P (snd (caseGETINFO MP p data r))"
      by (simp add: caseGETINFO_def Let_def base conn_Send_def sd cb split: sum.split list.split)
    with 6 show ?thesis by (simp add: HandleMessage_def msg_defs)
  next
    case 7
    have "P (snd (caseGETBALANCE MP p data r))"
      by (simp add: caseGETBALANCE_def Let_def base conn_Send_def sd cb split: sum.split list.split)
    with 7 show ?thesis by (simp add: HandleMessage_def msg_defs)
  next
    case 8
    have "P (snd (caseGETAPI MP p data r))"
      by (simp add: caseGETAPI_def Let_def base rd cb fr split: sum.split list.split)
    with 8 show ?thesis by (simp add: HandleMessage_def msg_defs)
  next
    case 9
    then show ?thesis by (auto simp: HandleMessage_def msg_defs base)
  qed
qed

lemma perform_identity: "identity (perform nil p h) = identity p"
  by (cases h) (simp_all add: identity_def call_defs Let_def split: option.split)

lemma hostcalls_identity: "identity (hostcalls nil p hs) = identity p"
  by (induction hs arbitrary: p) (simp_all add: perform_identity)

lemma HandleMessage_identity:
  assumes "msg \<noteq> msgVERSION"
  shows "identity (snd (HandleMessage MP names p msg data r)) = identity p"
proof (rule HandleMessage_preserves[where P = "\<lambda>q. identity q = identity p", OF assms])
  show "identity p = identity p" ..
next
  fix q fs assume "identity q = identity p"
  then show "identity (q\<lparr>frame := fs\<rparr>) = identity p" by (simp add: identity_def)
next
  fix q e assume "identity q = identity p"
  then show "identity (q\<lparr>trace := trace q @ [e]\<rparr>) = identity p" by (simp add: identity_def)
next
  fix q assume "identity q = identity p"
  then show "identity (q\<lparr>trace := trace q @ [MgrOnReady (scoreType q) False 0]\<rparr>) = identity p"
    by (simp add: identity_def)
next
  fix q assume "identity q = identity p"
  then show "identity (hostcalls (codecNil MP) q (during r)) = identity p"
    by (simp add: hostcalls_identity)
qed

lemma step_identity: "\<not> isVERSION x \<Longrightarrow> identity (step MP names p x) = identity p"
  by (cases x) (simp_all add: HandleMessage_identity perform_identity)

lemma steps_identity:
  "list_all (\<lambda>x. \<not> isVERSION x) xs \<Longrightarrow> identity (steps MP names p xs) = identity p"
  by (induction xs arbitrary: p) (simp_all add: step_identity)

lemma VERSION_identity:
  "identity (snd (HandleMessage MP names p msgVERSION data r)) =
     (case UnmarshalVersion MP data of
        Inl e \<Rightarrow> identity p
      | Inr m \<Rightarrow>
          (Version m, UID m, case names (Type m) of None \<Rightarrow> scoreType p | Some t \<Rightarrow> t))"
  by (simp add: HandleMessage_def caseVERSION_def mgr_onReady_def identity_def
      split: sum.split option.split)

text \<open>
  Claim C3, as stated, fails: a second \<open>VERSION\<close> message assigns the three fields again.
\<close>

theorem identity_counterexample:
  "identity (steps testMP testNames newConnection [Inbound msgVERSION [1, 0, 0] quiet]) =
     (1, ''u'', 0) \<and>
   identity (steps testMP testNames newConnection
     [Inbound msgVERSION [1, 0, 0] quiet, Inbound msgVERSION [2, 1, 1] quiet]) =
     (2, ''w'', 1)"
  by (simp add: eval_defs identity_def)

text \<open>
  Claim C3, amended. The fields \<open>version\<close>, \<open>uid\<close> and \<open>scoreType\<close> are assigned by
  \<open>HandleMessage\<close> on every \<open>VERSION\<close> message whose payload decodes (\<open>scoreType\<close>
  only when the type string is known), the first one or a later one. No other inbound
  message and no call of the host or the manager changes them.
\<close>

theorem identity_assigned_by_VERSION_only:
  "(list_all (\<lambda>x. \<not> isVERSION x) xs \<longrightarrow>
      identity (steps MP names p xs) = identity p) \<and>
   identity (step MP names p (Inbound msgVERSION data r)) =
     (case UnmarshalVersion MP data of
        Inl e \<Rightarrow> identity p
      | Inr m \<Rightarrow>
          (Version m, UID m, case names (Type m) of None \<Rightarrow> scoreType p | Some t \<Rightarrow> t))"
  by (simp add: steps_identity VERSION_identity)

theorem identity_assigned_by_VERSION_only_witness:
  "list_all (\<lambda>x. \<not> isVERSION x) (tl nestedCall) \<and>
   identity (step testMP testNames newConnection (hd nestedCall)) = (1, ''u'', 0) \<and>
   identity (steps testMP testNames
     (step testMP testNames newConnection (hd nestedCall)) (tl nestedCall)) = (1, ''u'', 0)"
proof -
  have a: "list_all (\<lambda>x. \<not> isVERSION x) (tl nestedCall)"
    by (simp add: nestedCall_def msg_defs)
  have b: "identity (step testMP testNames newConnection (hd nestedCall)) = (1, ''u'', 0)"
    by (simp add: nestedCall_def eval_defs identity_def)
  from identity_assigned_by_VERSION_only[of "tl nestedCall" testMP testNames
      "step testMP testNames newConnection (hd nestedCall)"] a b
  show ?thesis by simp
qed

section \<open>Reservation\<close>

lemma perform_reserved: "reserved p \<Longrightarrow> \<not> isRelease h \<Longrightarrow> reserved (perform nil p h)"
  by (cases h) (simp_all add: call_defs Let_def)

lemma hostcalls_reserved:
  "reserved p \<Longrightarrow> \<not> list_ex isRelease hs \<Longrightarrow> reserved (hostcalls nil p hs)"
  by (induction hs arbitrary: p) (simp_all add: perform_reserved)

lemma HandleMessage_reserved:
  assumes "reserved p" and "\<not> list_ex isRelease (during r)"
  shows "reserved (snd (HandleMessage MP names p msg data r))"
proof (cases "msg = msgVERSION")
  case True
  with assms(1) show ?thesis
    by (simp add: HandleMessage_def caseVERSION_def mgr_onReady_def Let_def
        split: sum.split option.split)
next
  case False
  show ?thesis
  proof (rule HandleMessage_preserves[where P = "reserved :: proxy \<Rightarrow> bool", OF False assms(1)])
    fix q :: proxy assume "reserved q"
    with assms(2) show "reserved (hostcalls (codecNil MP) q (during r))"
      by (simp add: hostcalls_reserved)
  qed simp_all
qed

lemma step_reserved: "reserved p \<Longrightarrow> noRelease x \<Longrightarrow> reserved (step MP names p x)"
  by (cases x) (simp_all add: HandleMessage_reserved perform_reserved)

lemma steps_reserved:
  "reserved p \<Longrightarrow> list_all noRelease xs \<Longrightarrow> reserved (steps MP names p xs)"
  by (induction xs arbitrary: p) (simp_all add: step_reserved)

text \<open>
  Claim C5, as stated, fails: a terminal pop does not clear the flag. After the nested
  call, whose two \<open>RESULT\<close> messages leave the frame stack empty, the proxy is still
  reserved and \<open>reserve\<close> returns false.
\<close>

theorem reserved_after_pop_counterexample:
  "pops nestedCall = 2 \<and>
   frame (steps testMP testNames newConnection nestedCall) = [] \<and>
   reserved (steps testMP testNames newConnection nestedCall) \<and>
   fst (reserve (steps testMP testNames newConnection nestedCall)) = False"
  by (simp add: nestedCall_def eval_defs)

text \<open>
  Claim C5, amended. \<open>reserve\<close> is a test-and-set on the reserved flag: it returns true
  exactly when the flag was clear, and the flag is set afterwards. \<open>Release\<close> clears it.
  Once the flag is set, it stays set, and every \<open>reserve\<close> returns false, through
  every sequence of inbound messages and calls that contains no \<open>Release\<close> and in which
  no dispatch panics: a terminal pop does not clear it.
\<close>

theorem reserve_fails_until_Release:
  "fst (reserve p) = (\<not> reserved p) \<and>
   reserved (snd (reserve p)) \<and>
   \<not> reserved (Release p ret) \<and>
   (reserved p \<and> list_all noRelease xs \<and> panicFree MP names p xs \<longrightarrow>
      reserved (steps MP names p xs) \<and> fst (reserve (steps MP names p xs)) = False)"
proof (intro conjI impI)
  assume "reserved p \<and> list_all noRelease xs \<and> panicFree MP names p xs"
  then show r: "reserved (steps MP names p xs)" by (simp add: steps_reserved)
  then show "fst (reserve (steps MP names p xs)) = False" by (simp add: reserve_def)
qed (simp_all add: reserve_def Release_def mgr_onReady_def conn_Close_def Let_def
      split: option.split)

theorem reserve_fails_until_Release_witness:
  "fst (reserve (step testMP testNames newConnection (hd nestedCall))) \<and>
   list_all noRelease (tl (tl nestedCall)) \<and>
   panicFree testMP testNames
     (snd (reserve (step testMP testNames newConnection (hd nestedCall))))
     (tl (tl nestedCall)) \<and>
   pops (tl (tl nestedCall)) = 2 \<and>
   reserved (steps testMP testNames
     (snd (reserve (step testMP testNames newConnection (hd nestedCall))))
     (tl (tl nestedCall))) \<and>
   fst (reserve (steps testMP testNames
     (snd (reserve (step testMP testNames newConnection (hd nestedCall))))
     (tl (tl nestedCall)))) = False"
proof -
  let ?p = "snd (reserve (step testMP testNames newConnection (hd nestedCall)))"
  have a: "fst (reserve (step testMP testNames newConnection (hd nestedCall)))"
    by (simp add: nestedCall_def eval_defs)
  have b: "list_all noRelease (tl (tl nestedCall))"
    by (simp add: nestedCall_def eval_defs)
  have c: "reserved ?p"
    by (simp add: nestedCall_def eval_defs)
  have d: "panicFree testMP testNames ?p (tl (tl nestedCall))"
    by (simp add: nestedCall_def eval_defs)
  have e: "pops (tl (tl nestedCall)) = 2"
    by (simp add: nestedCall_def msg_defs)
  from reserve_fails_until_Release[of ?p None "tl (tl nestedCall)" testMP testNames] a b c d e
  show ?thesis by blast
qed

section \<open>Errors of \<open>onReady\<close>\<close>

text \<open>
  Claim C9, as stated, fails after \<open>VERSION\<close>: when \<open>onReady\<close> returns an error,
  \<open>HandleMessage\<close> returns that error, and the call of \<open>onReady\<close> is the last thing it
  does. It does not close the connection.
\<close>

theorem onReady_error_counterexample:
  "HandleMessage testMP testNames newConnection msgVERSION [1, 0, 0] failing =
     (Returned (Some (ManagerError 1)),
      newConnection\<lparr>version := 1, uid := ''u'', trace := [MgrOnReady 0 False 0]\<rparr>)"
  by (simp add: eval_defs)

text \<open>
  Claim C9, amended. When \<open>onReady\<close> returns an error to \<open>Release\<close>, the proxy closes
  its connection at once. When it returns an error to \<open>HandleMessage\<close> (after
  \<open>VERSION\<close>, or after a terminal pop, \<open>RESULT\<close> or \<open>GETAPI\<close>, that leaves an empty
  stack on a proxy that is not reserved once the callback has returned), the proxy
  returns that error to the caller of \<open>HandleMessage\<close> and does nothing after the call
  of \<open>onReady\<close>: it does not close the connection itself.
\<close>

theorem onReady_error_handling:
  "(reserved p \<and> frame p = [] \<longrightarrow>
      fresh p (Release p (Some e)) = [MgrOnReady (scoreType p) False 0, ConnClose]) \<and>
   (UnmarshalVersion MP data = Inr m \<and> names (Type m) = Some t \<and> onReady_ret r = Some e \<longrightarrow>
      HandleMessage MP names p msgVERSION data r =
        (Returned (Some e),
         p\<lparr>version := Version m, uid := UID m, scoreType := t,
           trace := trace p @ [MgrOnReady t (reserved p) (length (frame p))]\<rparr>)) \<and>
   (UnmarshalResult MP data = Inr rm \<and> frame p = fr # prev \<and>
    p2 = callback (codecNil MP) (p\<lparr>frame := prev\<rparr>)
           (CtxOnResult (ctx fr) (resultMessage.Status rm) (StepUsed rm) (Result rm))
           (during r) \<and>
    frame p2 = [] \<and> \<not> reserved p2 \<and> onReady_ret r = Some e \<longrightarrow>
      HandleMessage MP names p msgRESULT data r =
        (Returned (Some e),
         p2\<lparr>trace := trace p2 @ [MgrOnReady (scoreType p2) False 0]\<rparr>)) \<and>
   (UnmarshalGetAPI MP data = Inr am \<and> frame p = fr # prev \<and>
    p2 = callback (codecNil MP) (p\<lparr>frame := prev\<rparr>)
           (CtxOnAPI (ctx fr) (getAPIMessage.Status am) (Info am)) (during r) \<and>
    frame p2 = [] \<and> \<not> reserved p2 \<and> onReady_ret r = Some e \<longrightarrow>
      HandleMessage MP names p msgGETAPI data r =
        (Returned (Some e),
         p2\<lparr>trace := trace p2 @ [MgrOnReady (scoreType p2) False 0]\<rparr>))"
proof (intro conjI impI)
  assume "reserved p \<and> frame p = []"
  then show "fresh p (Release p (Some e)) = [MgrOnReady (scoreType p) False 0, ConnClose]"
    by (simp add: Release_def mgr_onReady_def conn_Close_def fresh_def)
next
  assume "UnmarshalVersion MP data = Inr m \<and> names (Type m) = Some t \<and> onReady_ret r = Some e"
  then show "HandleMessage MP names p msgVERSION data r =
        (Returned (Some e),
         p\<lparr>version := Version m, uid := UID m, scoreType := t,
           trace := trace p @ [MgrOnReady t (reserved p) (length (frame p))]\<rparr>)"
    by (simp add: HandleMessage_def caseVERSION_def mgr_onReady_def)
next
  assume "UnmarshalResult MP data = Inr rm \<and> frame p = fr # prev \<and>
    p2 = callback (codecNil MP) (p\<lparr>frame := prev\<rparr>)
           (CtxOnResult (ctx fr) (resultMessage.Status rm) (StepUsed rm) (Result rm))
           (during r) \<and>
    frame p2 = [] \<and> \<not> reserved p2 \<and> onReady_ret r = Some e"
  then show "HandleMessage MP names p msgRESULT data r =
        (Returned (Some e),
         p2\<lparr>trace := trace p2 @ [MgrOnReady (scoreType p2) False 0]\<rparr>)"
    by (clarsimp simp: HandleMessage_def caseRESULT_def readiness_def mgr_onReady_def
        msg_defs Let_def)
next
  assume "UnmarshalGetAPI MP data = Inr am \<and> frame p = fr # prev \<and>
    p2 = callback (codecNil MP) (p\<lparr>frame := prev\<rparr>)
           (CtxOnAPI (ctx fr) (getAPIMessage.Status am) (Info am)) (during r) \<and>
    frame p2 = [] \<and> \<not> reserved p2 \<and> onReady_ret r = Some e"
  then show "HandleMessage MP names p msgGETAPI data r =
        (Returned (Some e),
         p2\<lparr>trace := trace p2 @ [MgrOnReady (scoreType p2) False 0]\<rparr>)"
    by (clarsimp simp: HandleMessage_def caseGETAPI_def readiness_def mgr_onReady_def
        msg_defs Let_def)
qed

theorem onReady_error_handling_witness:
  "(reserved (steps testMP testNames newConnection handshake) \<and>
    frame (steps testMP testNames newConnection handshake) = [] \<and>
    fresh (steps testMP testNames newConnection handshake)
      (Release (steps testMP testNames newConnection handshake) (Some (ManagerError 1))) =
      [MgrOnReady 0 False 0, ConnClose]) \<and>
   (UnmarshalVersion testMP [1, 0, 0] = Inr \<lparr>Version = 1, UID = ''u'', Type = ''python''\<rparr> \<and>
    testNames ''python'' = Some 0 \<and>
    onReady_ret failing = Some (ManagerError 1) \<and>
    HandleMessage testMP testNames newConnection msgVERSION [1, 0, 0] failing =
      (Returned (Some (ManagerError 1)),
       newConnection\<lparr>version := 1, uid := ''u'', trace := [MgrOnReady 0 False 0]\<rparr>)) \<and>
   (UnmarshalResult testMP [0, 42] =
      Inr \<lparr>resultMessage.Status = 0, StepUsed = 42, Result = None\<rparr> \<and>
    frame (steps testMP testNames newConnection
      (handshake @ [Host (invokeB 1), Host (CallRelease None)])) =
      [\<lparr>addr = Some [11], ctx = 1\<rparr>] \<and>
    \<not> reserved (steps testMP testNames newConnection
      (handshake @ [Host (invokeB 1), Host (CallRelease None)])) \<and>
    fst (HandleMessage testMP testNames
      (steps testMP testNames newConnection
        (handshake @ [Host (invokeB 1), Host (CallRelease None)]))
      msgRESULT [0, 42] failing) = Returned (Some (ManagerError 1)) \<and>
    fresh (steps testMP testNames newConnection
        (handshake @ [Host (invokeB 1), Host (CallRelease None)]))
      (snd (HandleMessage testMP testNames
        (steps testMP testNames newConnection
          (handshake @ [Host (invokeB 1), Host (CallRelease None)]))
        msgRESULT [0, 42] failing)) =
      [CtxOnResult 1 0 42 None, MgrOnReady 0 False 0]) \<and>
   (UnmarshalGetAPI testMP [0, 7] = Inr \<lparr>getAPIMessage.Status = 0, Info = Some [7]\<rparr> \<and>
    frame (steps testMP testNames newConnection
      (handshake @ [Host (CallGetAPI 3 ''c'' None), Host (CallRelease None)])) =
      [\<lparr>addr = None, ctx = 3\<rparr>] \<and>
    fst (HandleMessage testMP testNames
      (steps testMP testNames newConnection
        (handshake @ [Host (CallGetAPI 3 ''c'' None), Host (CallRelease None)]))
      msgGETAPI [0, 7] failing) = Returned (Some (ManagerError 1)) \<and>
    fresh (steps testMP testNames newConnection
        (handshake @ [Host (CallGetAPI 3 ''c'' None), Host (CallRelease None)]))
      (snd (HandleMessage testMP testNames
        (steps testMP testNames newConnection
          (handshake @ [Host (CallGetAPI 3 ''c'' None), Host (CallRelease None)]))
        msgGETAPI [0, 7] failing)) =
      [CtxOnAPI 3 0 (Some [7]), MgrOnReady 0 False 0])"
proof -
  let ?e = "ManagerError 1"
  let ?p = "steps testMP testNames newConnection handshake"
  let ?q = "steps testMP testNames newConnection
              (handshake @ [Host (invokeB 1), Host (CallRelease None)])"
  let ?g = "steps testMP testNames newConnection
              (handshake @ [Host (CallGetAPI 3 ''c'' None), Host (CallRelease None)])"
  let ?m = "\<lparr>Version = 1, UID = ''u'', Type = ''python''\<rparr>"
  let ?rm = "\<lparr>resultMessage.Status = 0, StepUsed = 42, Result = None\<rparr>"
  let ?am = "\<lparr>getAPIMessage.Status = 0, Info = Some [7]\<rparr>"
  let ?fq = "\<lparr>addr = Some [11], ctx = 1\<rparr>"
  let ?fg = "\<lparr>addr = None, ctx = 3\<rparr>"
  let ?q2 = "callback (codecNil testMP) (?q\<lparr>frame := []\<rparr>)
               (CtxOnResult (ctx ?fq) (resultMessage.Status ?rm) (StepUsed ?rm) (Result ?rm))
               (during failing)"
  let ?g2 = "callback (codecNil testMP) (?g\<lparr>frame := []\<rparr>)
               (CtxOnAPI (ctx ?fg) (getAPIMessage.Status ?am) (Info ?am)) (during failing)"
  have p: "reserved ?p \<and> frame ?p = []"
    by (simp add: eval_defs)
  have sp: "scoreType ?p = 0"
    by (simp add: eval_defs)
  have v: "UnmarshalVersion testMP [1, 0, 0] = Inr ?m \<and> testNames (Type ?m) = Some 0 \<and>
           onReady_ret failing = Some ?e"
    by (simp add: testMP_def testNames_def failing_def quiet_def)
  have q: "UnmarshalResult testMP [0, 42] = Inr ?rm \<and> frame ?q = ?fq # [] \<and> ?q2 = ?q2 \<and>
           frame ?q2 = [] \<and> \<not> reserved ?q2 \<and> onReady_ret failing = Some ?e"
    by (simp add: eval_defs)
  have g: "UnmarshalGetAPI testMP [0, 7] = Inr ?am \<and> frame ?g = ?fg # [] \<and> ?g2 = ?g2 \<and>
           frame ?g2 = [] \<and> \<not> reserved ?g2 \<and> onReady_ret failing = Some ?e"
    by (simp add: eval_defs)
  have q2: "?q2 = ?q\<lparr>frame := [], trace := trace ?q @ [CtxOnResult 1 0 42 None]\<rparr>"
    by (simp add: callback_def failing_def quiet_def)
  have g2: "?g2 = ?g\<lparr>frame := [], trace := trace ?g @ [CtxOnAPI 3 0 (Some [7])]\<rparr>"
    by (simp add: callback_def failing_def quiet_def)
  have sq: "scoreType ?q = 0 \<and> \<not> reserved ?q" by (simp add: eval_defs)
  have sg: "scoreType ?g = 0" by (simp add: eval_defs)
  have nc: "newConnection\<lparr>version := Version ?m, uid := UID ?m, scoreType := 0,
              trace := trace newConnection @
                [MgrOnReady 0 (reserved newConnection) (length (frame newConnection))]\<rparr> =
            newConnection\<lparr>version := 1, uid := ''u'', trace := [MgrOnReady 0 False 0]\<rparr>"
    by (simp add: newConnection_def)
  note t = onReady_error_handling[where MP = testMP and names = testNames and e = ?e
      and r = failing]
  from t[where p = ?p] p
  have 1: "fresh ?p (Release ?p (Some ?e)) = [MgrOnReady (scoreType ?p) False 0, ConnClose]"
    by blast
  from t[where p = newConnection and data = "[1, 0, 0]" and m = ?m and t = 0] v
  have 2: "HandleMessage testMP testNames newConnection msgVERSION [1, 0, 0] failing =
      (Returned (Some ?e),
       newConnection\<lparr>version := Version ?m, uid := UID ?m, scoreType := 0,
         trace := trace newConnection @
           [MgrOnReady 0 (reserved newConnection) (length (frame newConnection))]\<rparr>)"
    by blast
  from t[where p = ?q and data = "[0, 42]" and rm = ?rm and fr = ?fq and prev = "[]"
      and ?p2.0 = ?q2] q
  have 3: "HandleMessage testMP testNames ?q msgRESULT [0, 42] failing =
      (Returned (Some ?e), ?q2\<lparr>trace := trace ?q2 @ [MgrOnReady (scoreType ?q2) False 0]\<rparr>)"
    by blast
  from t[where p = ?g and data = "[0, 7]" and am = ?am and fr = ?fg and prev = "[]"
      and ?p2.0 = ?g2] g
  have 4: "HandleMessage testMP testNames ?g msgGETAPI [0, 7] failing =
      (Returned (Some ?e), ?g2\<lparr>trace := trace ?g2 @ [MgrOnReady (scoreType ?g2) False 0]\<rparr>)"
    by blast
  have r3: "fst (HandleMessage testMP testNames ?q msgRESULT [0, 42] failing) =
              Returned (Some ?e) \<and>
            fresh ?q (snd (HandleMessage testMP testNames ?q msgRESULT [0, 42] failing)) =
              [CtxOnResult 1 0 42 None, MgrOnReady 0 False 0]"
    unfolding 3 q2 using sq by (simp add: fresh_def)
  have r4: "fst (HandleMessage testMP testNames ?g msgGETAPI [0, 7] failing) =
              Returned (Some ?e) \<and>
            fresh ?g (snd (HandleMessage testMP testNames ?g msgGETAPI [0, 7] failing)) =
              [CtxOnAPI 3 0 (Some [7]), MgrOnReady 0 False 0]"
    unfolding 4 g2 using sg by (simp add: fresh_def)
  have v': "UnmarshalVersion testMP [1, 0, 0] = Inr ?m \<and> testNames ''python'' = Some 0 \<and>
            onReady_ret failing = Some ?e"
    using v by simp
  from 1 sp have r1: "fresh ?p (Release ?p (Some ?e)) = [MgrOnReady 0 False 0, ConnClose]"
    by simp
  from 2 nc have r2: "HandleMessage testMP testNames newConnection msgVERSION [1, 0, 0] failing =
      (Returned (Some ?e),
       newConnection\<lparr>version := 1, uid := ''u'', trace := [MgrOnReady 0 False 0]\<rparr>)"
    by simp
  from q have q': "UnmarshalResult testMP [0, 42] = Inr ?rm \<and> frame ?q = [?fq]" by blast
  from g have g': "UnmarshalGetAPI testMP [0, 7] = Inr ?am \<and> frame ?g = [?fg]" by blast
  from p r1 v' r2 q' sq r3 g' r4 show ?thesis by blast
qed

section \<open>Calls of \<open>onReady\<close>\<close>

lemma perform_idle:
  "\<exists>es. trace (perform nil p h) = trace p @ es \<and> list_all idleReady es"
  by (cases h) (simp_all add: call_defs Let_def split: option.split)

lemma hostcalls_idle:
  "\<exists>es. trace (hostcalls nil p hs) = trace p @ es \<and> list_all idleReady es"
proof (induction hs arbitrary: p)
  case Nil
  then show ?case by simp
next
  case (Cons h hs)
  obtain es where 1: "trace (perform nil p h) = trace p @ es" "list_all idleReady es"
    using perform_idle by blast
  obtain fs where 2: "trace (hostcalls nil (perform nil p h) hs) = trace (perform nil p h) @ fs"
    "list_all idleReady fs"
    using Cons.IH by blast
  from 1 2 have "trace (hostcalls nil p (h # hs)) = trace p @ (es @ fs) \<and>
    list_all idleReady (es @ fs)" by simp
  then show ?case by blast
qed

lemma HandleMessage_idle:
  assumes "msg \<noteq> msgVERSION"
  shows "\<exists>es. trace (snd (HandleMessage MP names p msg data r)) = trace p @ es \<and>
              list_all idleReady es"
proof (rule HandleMessage_preserves[
    where P = "\<lambda>q::proxy. \<exists>es. trace q = trace p @ es \<and> list_all idleReady es", OF assms])
  show "\<exists>es. trace p = trace p @ es \<and> list_all idleReady es" by simp
next
  fix q :: proxy and fs assume "\<exists>es. trace q = trace p @ es \<and> list_all idleReady es"
  then show "\<exists>es. trace (q\<lparr>frame := fs\<rparr>) = trace p @ es \<and> list_all idleReady es" by simp
next
  fix q :: proxy and e assume "\<exists>es. trace q = trace p @ es \<and> list_all idleReady es" and "\<not> isOnReady e"
  then obtain es where "trace q = trace p @ es" "list_all idleReady es" by blast
  moreover from \<open>\<not> isOnReady e\<close> have "idleReady e" by (cases e) simp_all
  ultimately have "trace (q\<lparr>trace := trace q @ [e]\<rparr>) = trace p @ (es @ [e]) \<and>
    list_all idleReady (es @ [e])" by simp
  then show "\<exists>es. trace (q\<lparr>trace := trace q @ [e]\<rparr>) = trace p @ es \<and> list_all idleReady es"
    by blast
next
  fix q :: proxy assume "\<exists>es. trace q = trace p @ es \<and> list_all idleReady es"
  then obtain es where "trace q = trace p @ es" "list_all idleReady es" by blast
  then have "trace (q\<lparr>trace := trace q @ [MgrOnReady (scoreType q) False 0]\<rparr>) =
      trace p @ (es @ [MgrOnReady (scoreType q) False 0]) \<and>
      list_all idleReady (es @ [MgrOnReady (scoreType q) False 0])" by simp
  then show "\<exists>es. trace (q\<lparr>trace := trace q @ [MgrOnReady (scoreType q) False 0]\<rparr>) =
      trace p @ es \<and> list_all idleReady es" by blast
next
  fix q :: proxy assume "\<exists>es. trace q = trace p @ es \<and> list_all idleReady es"
  then obtain es where 1: "trace q = trace p @ es" "list_all idleReady es" by blast
  obtain fs where 2: "trace (hostcalls (codecNil MP) q (during r)) = trace q @ fs"
    "list_all idleReady fs" using hostcalls_idle by blast
  from 1 2 have "trace (hostcalls (codecNil MP) q (during r)) = trace p @ (es @ fs) \<and>
    list_all idleReady (es @ fs)" by simp
  then show "\<exists>es. trace (hostcalls (codecNil MP) q (during r)) = trace p @ es \<and>
    list_all idleReady es" by blast
qed

lemma step_idle:
  assumes "\<not> isVERSION x"
  shows "list_all idleReady (fresh p (step MP names p x))"
proof -
  have "\<exists>es. trace (step MP names p x) = trace p @ es \<and> list_all idleReady es"
    using assms by (cases x) (simp_all add: HandleMessage_idle perform_idle)
  then show ?thesis by (auto simp: fresh_def)
qed

lemma VERSION_fresh:
  "fresh p (step MP names p (Inbound msgVERSION data r)) =
     (case UnmarshalVersion MP data of
        Inl e \<Rightarrow> []
      | Inr m \<Rightarrow>
          (case names (Type m) of
             None \<Rightarrow> []
           | Some t \<Rightarrow> [MgrOnReady t (reserved p) (length (frame p))]))"
  by (simp add: HandleMessage_def caseVERSION_def mgr_onReady_def fresh_def
      split: sum.split option.split)

lemma perform_ready_count:
  "length (filter isOnReady (fresh p (perform nil p h))) =
     (if isRelease h \<and> reserved p \<and> frame p = [] then 1 else 0)"
  by (cases h) (simp_all add: call_defs fresh_def Let_def split: option.split)

lemma inbound_ready_count:
  assumes "msg \<noteq> msgVERSION" and "during r = []"
  shows "length (filter isOnReady (fresh p (snd (HandleMessage MP names p msg data r)))) =
     (if (msg = msgRESULT \<or> msg = msgGETAPI) \<and> decodeError MP msg data = None \<and>
         length (frame p) = 1 \<and> \<not> reserved p then 1 else 0)"
proof -
  consider "msg = msgRESULT" | "msg = msgGETVALUE" | "msg = msgSETVALUE"
    | "msg = msgCALL" | "msg = msgEVENT" | "msg = msgGETINFO" | "msg = msgGETBALANCE"
    | "msg = msgGETAPI" | "msg = msgINVOKE \<or> msg > 9"
    using assms(1) unfolding msg_defs by atomize_elim arith
  then show ?thesis
  proof cases
    case 1
    then show ?thesis using assms(2)
      by (simp add: HandleMessage_def msg_defs caseRESULT_def decodeError_def callback_def
          readiness_def mgr_onReady_def fresh_def Let_def split: sum.split list.split)
  next
    case 2
    then show ?thesis using assms(2)
      by (simp add: HandleMessage_def msg_defs caseGETVALUE_def callback_def conn_Send_def
          fresh_def Let_def split: sum.split list.split prod.split option.split)
  next
    case 3
    then show ?thesis using assms(2)
      by (simp add: HandleMessage_def msg_defs caseSETVALUE_def callback_def
          fresh_def Let_def split: sum.split list.split)
  next
    case 4
    then show ?thesis using assms(2)
      by (simp add: HandleMessage_def msg_defs caseCALL_def callback_def
          fresh_def Let_def split: sum.split list.split)
  next
    case 5
    then show ?thesis using assms(2)
      by (simp add: HandleMessage_def msg_defs caseEVENT_def callback_def
          fresh_def Let_def split: sum.split list.split)
  next
    case 6
    then show ?thesis using assms(2)
      by (simp add: HandleMessage_def msg_defs caseGETINFO_def callback_def conn_Send_def
          fresh_def Let_def split: sum.split list.split)
  next
    case 7
    then show ?thesis using assms(2)
      by (simp add: HandleMessage_def msg_defs caseGETBALANCE_def callback_def conn_Send_def
          fresh_def Let_def split: sum.split list.split)
  next
    case 8
    then show ?thesis using assms(2)
      by (simp add: HandleMessage_def msg_defs caseGETAPI_def decodeError_def callback_def
          readiness_def mgr_onReady_def fresh_def Let_def split: sum.split list.split)
  next
    case 9
    then show ?thesis by (auto simp: HandleMessage_def msg_defs fresh_def)
  qed
qed

text \<open>
  Claim C2, as stated, fails twice. A \<open>VERSION\<close> message that arrives while the proxy is
  reserved and has a frame calls \<open>onReady\<close> on that proxy. And when the host calls
  \<open>Release\<close> from \<open>OnResult\<close> of the \<open>RESULT\<close> that empties the stack, \<open>onReady\<close> is
  called by \<open>Release\<close> and again by \<open>HandleMessage\<close> when the callback has returned:
  twice for one transition.
\<close>

theorem onReady_counterexample:
  "last (trace (steps testMP testNames newConnection
      (handshake @ [Host (invokeB 1), Inbound msgVERSION [1, 0, 0] quiet]))) =
     MgrOnReady 0 True 1 \<and>
   fresh (steps testMP testNames newConnection (handshake @ [Host (invokeB 1)]))
     (steps testMP testNames newConnection
        (handshake @ [Host (invokeB 1), Inbound msgRESULT [0, 42] releasing])) =
     [CtxOnResult 1 0 42 None, MgrOnReady 0 False 0, MgrOnReady 0 False 0]"
  by (simp add: eval_defs fresh_def)

text \<open>
  Claim C2, amended. \<open>onReady\<close> is called at three places and nowhere else. Every inbound
  message or call other than a \<open>VERSION\<close> message calls \<open>onReady\<close> only on a proxy
  that is not reserved and has no frame. A \<open>VERSION\<close> message that decodes to a known
  type calls it once, whatever the reserved flag and the frame stack are. A call of the
  host or the manager calls it once if it is a \<open>Release\<close> of a reserved proxy with no
  frame, and not at all otherwise. An inbound message other than \<open>VERSION\<close>, with no call
  made during its callback, calls it once if it is a \<open>RESULT\<close> or \<open>GETAPI\<close> that
  decodes and pops the last frame of a proxy that is not reserved, and not at all
  otherwise.
\<close>

theorem onReady_call_sites:
  "(\<not> isVERSION x \<longrightarrow> list_all idleReady (fresh p (step MP names p x))) \<and>
   fresh p (step MP names p (Inbound msgVERSION data r)) =
     (case UnmarshalVersion MP data of
        Inl e \<Rightarrow> []
      | Inr m \<Rightarrow>
          (case names (Type m) of
             None \<Rightarrow> []
           | Some t \<Rightarrow> [MgrOnReady t (reserved p) (length (frame p))])) \<and>
   length (filter isOnReady (fresh p (step MP names p (Host h)))) =
     (if isRelease h \<and> reserved p \<and> frame p = [] then 1 else 0) \<and>
   (msg \<noteq> msgVERSION \<and> during r = [] \<longrightarrow>
      length (filter isOnReady (fresh p (step MP names p (Inbound msg data r)))) =
        (if (msg = msgRESULT \<or> msg = msgGETAPI) \<and> decodeError MP msg data = None \<and>
            length (frame p) = 1 \<and> \<not> reserved p then 1 else 0))"
proof (intro conjI impI)
  assume "\<not> isVERSION x"
  then show "list_all idleReady (fresh p (step MP names p x))" by (rule step_idle)
next
  show "fresh p (step MP names p (Inbound msgVERSION data r)) =
     (case UnmarshalVersion MP data of
        Inl e \<Rightarrow> []
      | Inr m \<Rightarrow>
          (case names (Type m) of
             None \<Rightarrow> []
           | Some t \<Rightarrow> [MgrOnReady t (reserved p) (length (frame p))]))"
    by (rule VERSION_fresh)
next
  show "length (filter isOnReady (fresh p (step MP names p (Host h)))) =
     (if isRelease h \<and> reserved p \<and> frame p = [] then 1 else 0)"
    by (simp add: perform_ready_count)
next
  assume "msg \<noteq> msgVERSION \<and> during r = []"
  then show "length (filter isOnReady (fresh p (step MP names p (Inbound msg data r)))) =
        (if (msg = msgRESULT \<or> msg = msgGETAPI) \<and> decodeError MP msg data = None \<and>
            length (frame p) = 1 \<and> \<not> reserved p then 1 else 0)"
    by (simp add: inbound_ready_count)
qed

theorem onReady_call_sites_witness:
  "\<not> isVERSION (Inbound msgRESULT [0, 42] releasing) \<and>
   list_all idleReady
     (fresh (steps testMP testNames newConnection (handshake @ [Host (invokeB 1)]))
        (step testMP testNames
           (steps testMP testNames newConnection (handshake @ [Host (invokeB 1)]))
           (Inbound msgRESULT [0, 42] releasing))) \<and>
   msgRESULT \<noteq> msgVERSION \<and> during quiet = [] \<and>
   length (filter isOnReady
     (fresh (steps testMP testNames newConnection
               (handshake @ [Host (invokeB 1), Host (CallRelease None)]))
        (step testMP testNames
           (steps testMP testNames newConnection
              (handshake @ [Host (invokeB 1), Host (CallRelease None)]))
           (Inbound msgRESULT [0, 42] quiet)))) = 1 \<and>
   length (filter isOnReady
     (fresh (steps testMP testNames newConnection (handshake @ [Host (invokeB 1)]))
        (step testMP testNames
           (steps testMP testNames newConnection (handshake @ [Host (invokeB 1)]))
           (Inbound msgRESULT [0, 42] quiet)))) = 0"
proof -
  let ?p = "steps testMP testNames newConnection (handshake @ [Host (invokeB 1)])"
  let ?q = "steps testMP testNames newConnection
              (handshake @ [Host (invokeB 1), Host (CallRelease None)])"
  have a: "\<not> isVERSION (Inbound msgRESULT [0, 42] releasing)" by (simp add: msg_defs)
  have b: "msgRESULT \<noteq> msgVERSION \<and> during quiet = []" by (simp add: msg_defs quiet_def)
  have d: "decodeError testMP msgRESULT [0, 42] = None"
    by (simp add: decodeError_def testMP_def)
  have q: "length (frame ?q) = 1 \<and> \<not> reserved ?q" by (simp add: eval_defs)
  have p: "reserved ?p" by (simp add: eval_defs)
  note t = onReady_call_sites[where MP = testMP and names = testNames and msg = msgRESULT
      and data = "[0, 42]" and r = quiet]
  from t[where p = ?p and x = "Inbound msgRESULT [0, 42] releasing"] a
  have 1: "list_all idleReady (fresh ?p (step testMP testNames ?p
      (Inbound msgRESULT [0, 42] releasing)))" by blast
  from t[where p = ?q] b d q
  have 2: "length (filter isOnReady (fresh ?q (step testMP testNames ?q
      (Inbound msgRESULT [0, 42] quiet)))) = 1" by simp
  from t[where p = ?p] b p
  have 3: "length (filter isOnReady (fresh ?p (step testMP testNames ?p
      (Inbound msgRESULT [0, 42] quiet)))) = 0" by simp
  from 1 2 3 a b show ?thesis by blast
qed

end
